theory Spec2Isabelle
  imports Complex_Main "HOL-Library.Code_Target_Nat"
begin

section \<open>Data model\<close>

text \<open>
  The generator of \<^verbatim>\<open>src/src/random_ohlc.py\<close> keeps one pandas frame of candles
  (\<^verbatim>\<open>self.__df_1min\<close>) and passes it through its stages. A frame is modelled as the
  list of its rows. A row carries the columns \<^verbatim>\<open>date\<close>, \<^verbatim>\<open>open\<close>, \<^verbatim>\<open>high\<close>,
  \<^verbatim>\<open>low\<close>, \<^verbatim>\<open>close\<close>; the column \<^verbatim>\<open>open\<close> is named \<open>open_c\<close> here, since
  \<open>open\<close> is the library's name for open sets. The field \<open>date\<close> counts the minutes
  since 2000-01-01 00:00, the default \<^verbatim>\<open>start_date\<close> of \<^verbatim>\<open>__create_dataframe\<close>.

  Python floats are modelled as reals: the rounding error of floating-point arithmetic
  is outside the model. The exceptions that the modelled calls can raise are values of
  the type \<open>error\<close>.
\<close>

record 'a candle =
  date :: nat
  open_c :: 'a
  high :: 'a
  low :: 'a
  close :: 'a

type_synonym frame = "real candle list"

datatype error = IndexError | ValueError | TypeError | AttributeError | KeyError

section \<open>The random source\<close>

text \<open>
  Every call of \<^verbatim>\<open>np.random\<close> reads the global generator. The model passes what the
  generator hands out as an argument: \<open>raw\<close> is the unbounded natural number from which
  \<^verbatim>\<open>np.random.randint(lo, hi)\<close> derives its result in the half-open range from \<open>lo\<close>
  up to, but not including, \<open>hi\<close>; numpy raises \<^verbatim>\<open>ValueError\<close> when the range is empty.
\<close>

definition randint :: "nat \<Rightarrow> nat \<Rightarrow> nat \<Rightarrow> error + nat" where
  "randint lo hi raw = (if lo < hi then Inr (lo + raw mod (hi - lo)) else Inl ValueError)"

datatype distribution = Normal | Laplace | Logistic

text \<open>The dictionary \<^verbatim>\<open>self.__distribution_functions\<close>, in the order of its keys.\<close>

definition distribution_functions :: "(nat \<times> distribution) list" where
  "distribution_functions = [(1, Normal), (2, Laplace), (3, Logistic)]"

text \<open>
  The first statement of \<^verbatim>\<open>__generate_random_df\<close>:
  \<^verbatim>\<open>self.__distribution_functions.get(np.random.randint(1, len(self.__distribution_functions)))\<close>.
  The method \<^verbatim>\<open>get\<close> answers \<^verbatim>\<open>None\<close> for a key that the dictionary lacks.
\<close>

definition choose_dist_func :: "nat \<Rightarrow> error + distribution option" where
  "choose_dist_func raw =
     (case randint 1 (length distribution_functions) raw of
        Inl e \<Rightarrow> Inl e
      | Inr k \<Rightarrow> Inr (map_of distribution_functions k))"

section \<open>Correcting the low and high columns\<close>

text \<open>
  numpy declares \<^verbatim>\<open>np.min(a, axis=None, out=None, ...)\<close> and \<^verbatim>\<open>np.max\<close> likewise. The
  sources call both with three columns in a row,
  \<^verbatim>\<open>np.min(df["open"], df["high"], df["close"])\<close>: the second column arrives as \<^verbatim>\<open>axis\<close>
  and the third as \<^verbatim>\<open>out\<close>. For a pandas column numpy hands the call over to the
  column's own \<^verbatim>\<open>min\<close> (\<^verbatim>\<open>max\<close>) with these arguments, and pandas refuses an \<^verbatim>\<open>out\<close>
  other than \<^verbatim>\<open>None\<close> with \<^verbatim>\<open>ValueError\<close>. The two definitions give the call as the
  sources make it, with a column in each of the three places.
\<close>

definition np_min :: "real list \<Rightarrow> real list \<Rightarrow> real list \<Rightarrow> error + real list" where
  "np_min a axis out = Inl ValueError"

definition np_max :: "real list \<Rightarrow> real list \<Rightarrow> real list \<Rightarrow> error + real list" where
  "np_max a axis out = Inl ValueError"

text \<open>\<^verbatim>\<open>np.where(condition, x, y)\<close> on arrays of one length: \<open>x\<close> where the condition
  holds, \<open>y\<close> elsewhere.\<close>

definition np_where :: "bool list \<Rightarrow> real list \<Rightarrow> real list \<Rightarrow> real list" where
  "np_where cond xs ys = map (\<lambda>(b, x, y). if b then x else y) (zip cond (zip xs ys))"

text \<open>
  \<^verbatim>\<open>__correct_lowcolumn_error\<close> and \<^verbatim>\<open>__correct_highcolumn_error\<close>. Python evaluates
  the arguments of \<^verbatim>\<open>np.where\<close> before the call: the condition first, then the call of
  \<^verbatim>\<open>np.min\<close> (\<^verbatim>\<open>np.max\<close>), whatever the condition holds.
\<close>

definition correct_lowcolumn_error :: "frame \<Rightarrow> error + real list" where
  "correct_lowcolumn_error df =
     (case np_min (map open_c df) (map high df) (map close df) of
        Inl e \<Rightarrow> Inl e
      | Inr m \<Rightarrow>
          Inr (np_where
                 (map (\<lambda>c. low c > open_c c \<or> low c > high c \<or> low c > close c) df)
                 m (map low df)))"

definition correct_highcolumn_error :: "frame \<Rightarrow> error + real list" where
  "correct_highcolumn_error df =
     (case np_max (map open_c df) (map low df) (map close df) of
        Inl e \<Rightarrow> Inl e
      | Inr m \<Rightarrow>
          Inr (np_where
                 (map (\<lambda>c. high c < open_c c \<or> high c < low c \<or> high c < close c) df)
                 m (map high df)))"

text \<open>
  Assigning an array to a column (\<^verbatim>\<open>df.low = ...\<close>). Every array assigned below is
  computed from the frame itself and has its length.
\<close>

definition assign_open :: "'a list \<Rightarrow> 'a candle list \<Rightarrow> 'a candle list" where
  "assign_open vs df = map2 (\<lambda>v c. c\<lparr>open_c := v\<rparr>) vs df"

definition assign_high :: "'a list \<Rightarrow> 'a candle list \<Rightarrow> 'a candle list" where
  "assign_high vs df = map2 (\<lambda>v c. c\<lparr>high := v\<rparr>) vs df"

definition assign_low :: "'a list \<Rightarrow> 'a candle list \<Rightarrow> 'a candle list" where
  "assign_low vs df = map2 (\<lambda>v c. c\<lparr>low := v\<rparr>) vs df"

text \<open>
  The correction pass of \<^verbatim>\<open>__connect_open_close_candles\<close>, the two statements
  \<^verbatim>\<open>self.__df_1min.low = self.__correct_lowcolumn_error(self.__df_1min)\<close> and
  \<^verbatim>\<open>self.__df_1min.high = self.__correct_highcolumn_error(self.__df_1min)\<close>: an exception
  of the first ends the pass before anything is assigned.
\<close>

definition ohlc_corrector :: "frame \<Rightarrow> error + frame" where
  "ohlc_corrector df =
     (case correct_lowcolumn_error df of
        Inl e \<Rightarrow> Inl e
      | Inr lows \<Rightarrow>
          (case correct_highcolumn_error (assign_low lows df) of
             Inl e \<Rightarrow> Inl e
           | Inr highs \<Rightarrow> Inr (assign_high highs (assign_low lows df))))"

section \<open>Connecting the candles\<close>

text \<open>\<^verbatim>\<open>self.__df_1min["close"].shift(1).fillna(0)\<close>: every value moves one row down,
  and the first row, left without a value, is filled with 0.\<close>

definition shift1_fillna0 :: "real list \<Rightarrow> real list" where
  "shift1_fillna0 xs = take (length xs) (0 # xs)"

text \<open>
  The first three statements of \<^verbatim>\<open>__connect_open_close_candles\<close>: the open column
  becomes the shifted close column, and
  \<^verbatim>\<open>self.__df_1min.at[0, "open"] = self.start_price\<close> writes the first row. An empty
  frame cannot reach this step (\<^verbatim>\<open>__generate_random_df\<close> raises for zero bars); pandas
  would enlarge an empty frame by a row of missing values, which a frame of reals cannot
  hold, so the model leaves an empty frame empty.
\<close>

definition shift_open :: "real \<Rightarrow> frame \<Rightarrow> frame" where
  "shift_open start_price df =
     (let prev_close = shift1_fillna0 (map close df);
          df1 = assign_open prev_close df
      in case df1 of [] \<Rightarrow> [] | c # cs \<Rightarrow> c\<lparr>open_c := start_price\<rparr> # cs)"

text \<open>
  \<^verbatim>\<open>__connect_open_close_candles\<close>, without its plotting calls: the open column is
  shifted, then the correction pass runs. (The second run of the two correction
  functions and the two \<^verbatim>\<open>print\<close> statements come after the pass and change nothing in
  the frame.)
\<close>

definition connect_open_close_candles :: "real \<Rightarrow> frame \<Rightarrow> error + frame" where
  "connect_open_close_candles start_price df = ohlc_corrector (shift_open start_price df)"

section \<open>Rounding\<close>

text \<open>
  \<^verbatim>\<open>prices.round(decimals=6)\<close> and \<^verbatim>\<open>round(series, 4)\<close> are numpy's rounding: the value
  is scaled by the power of ten, rounded to the nearest integer with ties going to the
  even neighbour, and scaled back.
\<close>

definition round_half_even :: "real \<Rightarrow> int" where
  "round_half_even x =
     (let f = \<lfloor>x\<rfloor>; r = x - of_int f
      in if r < 1 / 2 then f
         else if 1 / 2 < r then f + 1
         else if even f then f else f + 1)"

definition np_round :: "nat \<Rightarrow> real \<Rightarrow> real" where
  "np_round d x = of_int (round_half_even (x * 10 ^ d)) / 10 ^ d"

section \<open>The random walk\<close>

text \<open>
  The two values of \<^verbatim>\<open>frequency\<close> that the sources pass: \<^verbatim>\<open>"1S"\<close> (one tick per second,
  \<^verbatim>\<open>random_case\<close> of \<^verbatim>\<open>src/src/app.py\<close>) and \<^verbatim>\<open>"1min"\<close> (one tick per minute,
  \<^verbatim>\<open>__create_volatile_periods\<close>).
\<close>

datatype frequency = Freq_1S | Freq_1min

fun ticks_per_minute :: "frequency \<Rightarrow> nat" where
  "ticks_per_minute Freq_1S = 60"
| "ticks_per_minute Freq_1min = 1"

text \<open>\<^verbatim>\<open>np.cumsum\<close>: the running sums of an array.\<close>

fun cumsum_from :: "real \<Rightarrow> real list \<Rightarrow> real list" where
  "cumsum_from a [] = []"
| "cumsum_from a (x # xs) = (a + x) # cumsum_from (a + x) xs"

definition cumsum :: "real list \<Rightarrow> real list" where
  "cumsum xs = cumsum_from 0 xs"

text \<open>
  \<^verbatim>\<open>df.price.resample("1min").ohlc()\<close>: the ticks start at midnight and are evenly
  spaced, so minute \<open>m\<close> holds the next \<open>n\<close> ticks (\<open>n\<close> ticks per minute; the last minute
  may hold fewer). Each minute becomes a candle: first, largest, smallest and last tick.
\<close>

function ohlc_bars :: "nat \<Rightarrow> nat \<Rightarrow> real list \<Rightarrow> frame" where
  "ohlc_bars n m xs =
     (if n = 0 \<or> xs = [] then []
      else \<lparr>date = m, open_c = hd (take n xs), high = Max (set (take n xs)),
             low = Min (set (take n xs)), close = last (take n xs)\<rparr>
           # ohlc_bars n (Suc m) (drop n xs))"
  by pat_completeness auto
termination
  by (relation "measure (\<lambda>(n, m, xs). length xs)") auto

declare ohlc_bars.simps [simp del]

text \<open>
  \<^verbatim>\<open>__generate_random_df\<close>. The argument \<open>raw\<close> feeds the choice of the distribution.
  The array \<^verbatim>\<open>dist_func(scale=volatility, size=num_bars)\<close> is the scale times the
  standard variates \<open>z dist_func 0\<close>, \<open>z dist_func 1\<close>, ... that the random source hands
  out for the chosen distribution (all three are location-scale families, drawn here
  with location 0); numpy raises \<^verbatim>\<open>ValueError\<close> for a negative scale. Calling the
  \<^verbatim>\<open>None\<close> that \<^verbatim>\<open>get\<close> answers for an unknown key raises \<^verbatim>\<open>TypeError\<close>, and
  \<^verbatim>\<open>steps[0] = 0\<close> raises \<^verbatim>\<open>IndexError\<close> on an empty array.
\<close>

definition generate_random_df ::
  "nat \<Rightarrow> frequency \<Rightarrow> real \<Rightarrow> real \<Rightarrow> nat \<Rightarrow> (distribution \<Rightarrow> nat \<Rightarrow> real) \<Rightarrow> error + frame" where
  "generate_random_df num_bars frequency start_price volatility raw z =
     (case choose_dist_func raw of
        Inl e \<Rightarrow> Inl e
      | Inr None \<Rightarrow> Inl TypeError
      | Inr (Some dist_func) \<Rightarrow>
          if volatility < 0 then Inl ValueError
          else if num_bars = 0 then Inl IndexError
          else
            let steps = (map (\<lambda>i. volatility * z dist_func i) [0..<num_bars])[0 := 0];
                prices = map (\<lambda>s. start_price + s) (cumsum steps);
                prices = map (\<lambda>p. \<bar>np_round 6 p\<bar>) prices
            in Inr (ohlc_bars (ticks_per_minute frequency) 0 prices))"

section \<open>Volatile periods\<close>

text \<open>
  The constants \<^verbatim>\<open>VOLATILE_PROB\<close>, \<^verbatim>\<open>VOLATILE_PERIOD_MIN\<close> and \<^verbatim>\<open>VOLATILE_PERIOD_MAX\<close>
  come from \<^verbatim>\<open>constants/constants.py\<close>, which is not among the sources; they are
  parameters of the model (natural numbers).
\<close>

record volatile_constants =
  VOLATILE_PROB :: nat
  VOLATILE_PERIOD_MIN :: nat
  VOLATILE_PERIOD_MAX :: nat

text \<open>
  What \<^verbatim>\<open>__create_volatile_periods\<close> draws from the random source: the raw number
  behind \<^verbatim>\<open>random_chance\<close>; for every row the raw numbers behind the three arrays of
  \<^verbatim>\<open>np.random.randint(..., size=length)\<close>; and for the \<open>k\<close>-th pass of the loop the unit
  draw behind \<^verbatim>\<open>np.random.uniform(1.01, 1.02)\<close> and what the call of
  \<^verbatim>\<open>__generate_random_df\<close> consumes.
\<close>

record volatile_draws =
  chance_raw :: nat
  mask_raw :: "nat \<Rightarrow> nat"
  period_raw :: "nat \<Rightarrow> nat"
  end_raw :: "nat \<Rightarrow> nat"
  factor_u :: "nat \<Rightarrow> real"
  gen_raw :: "nat \<Rightarrow> nat"
  gen_z :: "nat \<Rightarrow> distribution \<Rightarrow> nat \<Rightarrow> real"

definition randint_array :: "nat \<Rightarrow> nat \<Rightarrow> (nat \<Rightarrow> nat) \<Rightarrow> nat \<Rightarrow> error + nat list" where
  "randint_array lo hi raws n =
     (if lo < hi then Inr (map (\<lambda>i. lo + raws i mod (hi - lo)) [0..<n]) else Inl ValueError)"

text \<open>
  The index arithmetic of \<^verbatim>\<open>__create_volatile_periods\<close>, array by array and under the
  names of the source (a product with the boolean mask keeps a value where the mask
  holds and gives 0 elsewhere). The result is the list that the loop iterates over,
  \<^verbatim>\<open>zip(start_indices, end_indices)\<close>.
\<close>

definition volatile_ranges ::
  "volatile_constants \<Rightarrow> volatile_draws \<Rightarrow> nat \<Rightarrow> error + (nat \<times> nat) list" where
  "volatile_ranges k d len =
     (case randint 1 100 (chance_raw d) of
        Inl e \<Rightarrow> Inl e
      | Inr random_chance \<Rightarrow>
     (case randint_array 1 (VOLATILE_PROB k) (mask_raw d) len of
        Inl e \<Rightarrow> Inl e
      | Inr probs \<Rightarrow>
     (case randint_array (VOLATILE_PERIOD_MIN k) (VOLATILE_PERIOD_MAX k) (period_raw d) len of
        Inl e \<Rightarrow> Inl e
      | Inr periods \<Rightarrow>
     (case randint_array (VOLATILE_PERIOD_MIN k) (VOLATILE_PERIOD_MAX k) (end_raw d) len of
        Inl e \<Rightarrow> Inl e
      | Inr lengths \<Rightarrow>
          let mask = map (\<lambda>i. probs ! i < random_chance) [0..<len];
              array_masked = map (\<lambda>i. if mask ! i then periods ! i else 0) [0..<len];
              mask = map (\<lambda>i. mask ! i \<and> i + array_masked ! i < len) [0..<len];
              start_indices = map (\<lambda>i. if mask ! i then i + array_masked ! i else 0) [0..<len];
              end_indices =
                map (\<lambda>i. start_indices ! i + (if mask ! i then lengths ! i else 0)) [0..<len];
              start_indices = filter (\<lambda>s. 0 < s) start_indices;
              end_indices = filter (\<lambda>e. 0 < e) end_indices;
              end_indices =
                map (\<lambda>e. if int e > int len - 1 then nat (int len - 1) else e) end_indices
          in Inr (zip start_indices end_indices)))))"

text \<open>
  The four assignments \<^verbatim>\<open>self.__df_1min.loc[starti:endi, col] = new_df[col].values\<close>: the
  slice selects the rows whose position lies between \<open>starti\<close> and \<open>endi\<close>, both
  included, and pandas raises \<^verbatim>\<open>ValueError\<close> when the array has another length than
  the selection. The \<^verbatim>\<open>date\<close> column is not assigned.
\<close>

definition loc_assign :: "nat \<Rightarrow> nat \<Rightarrow> frame \<Rightarrow> frame \<Rightarrow> error + frame" where
  "loc_assign starti endi new_df df =
     (if length new_df \<noteq> length (filter (\<lambda>i. starti \<le> i \<and> i \<le> endi) [0..<length df])
      then Inl ValueError
      else Inr (map (\<lambda>i. if starti \<le> i \<and> i \<le> endi
                           then (df ! i)\<lparr>open_c := open_c (new_df ! (i - starti)),
                                         high := high (new_df ! (i - starti)),
                                         low := low (new_df ! (i - starti)),
                                         close := close (new_df ! (i - starti))\<rparr>
                           else df ! i) [0..<length df]))"

text \<open>
  The call of \<^verbatim>\<open>__generate_random_df\<close> in the \<open>k\<close>-th pass of the loop. The number of
  bars \<^verbatim>\<open>endi - starti + 1\<close> is a Python integer: numpy raises \<^verbatim>\<open>ValueError\<close> for a
  negative size.
\<close>

definition volatile_replacement ::
  "real \<Rightarrow> real \<Rightarrow> volatile_draws \<Rightarrow> nat \<Rightarrow> nat \<Rightarrow> nat \<Rightarrow> error + frame" where
  "volatile_replacement start_price volatility d k starti endi =
     (if int endi - int starti + 1 < 0 then Inl ValueError
      else generate_random_df (nat (int endi - int starti + 1)) Freq_1min start_price
             (volatility * (1.01 + (1.02 - 1.01) * factor_u d k)) (gen_raw d k) (gen_z d k))"

text \<open>The loop over the ranges; \<open>k\<close> counts its passes.\<close>

fun splice_loop ::
  "real \<Rightarrow> real \<Rightarrow> volatile_draws \<Rightarrow> nat \<Rightarrow> (nat \<times> nat) list \<Rightarrow> frame \<Rightarrow> error + frame" where
  "splice_loop start_price volatility d k [] df = Inr df"
| "splice_loop start_price volatility d k ((starti, endi) # rs) df =
     (case volatile_replacement start_price volatility d k starti endi of
        Inl e \<Rightarrow> Inl e
      | Inr new_df \<Rightarrow>
          (case loc_assign starti endi new_df df of
             Inl e \<Rightarrow> Inl e
           | Inr df' \<Rightarrow> splice_loop start_price volatility d (Suc k) rs df'))"

definition create_volatile_periods ::
  "volatile_constants \<Rightarrow> real \<Rightarrow> real \<Rightarrow> volatile_draws \<Rightarrow> frame \<Rightarrow> error + frame" where
  "create_volatile_periods k start_price volatility d df =
     (case volatile_ranges k d (length df) of
        Inl e \<Rightarrow> Inl e
      | Inr ranges \<Rightarrow> splice_loop start_price volatility d 0 ranges df)"

text \<open>
  \<^verbatim>\<open>create_realistic_ohlc\<close>, without its plotting calls. Its first statement,
  \<^verbatim>\<open>reset_index\<close>, makes the dates a column; \<^verbatim>\<open>__connect_open_close_candles\<close> moves
  that column into the index with \<^verbatim>\<open>set_index("date", inplace=True)\<close>; the last statement
  here is the same \<^verbatim>\<open>set_index("date", inplace=True)\<close> again, and pandas raises
  \<^verbatim>\<open>KeyError\<close> for a column that the frame no longer has.
\<close>

definition create_realistic_ohlc ::
  "volatile_constants \<Rightarrow> real \<Rightarrow> real \<Rightarrow> volatile_draws \<Rightarrow> frame \<Rightarrow> error + frame" where
  "create_realistic_ohlc k start_price volatility d df =
     (case create_volatile_periods k start_price volatility d df of
        Inl e \<Rightarrow> Inl e
      | Inr df' \<Rightarrow>
          (case connect_open_close_candles start_price df' of
             Inl e \<Rightarrow> Inl e
           | Inr df'' \<Rightarrow> Inl KeyError))"

section \<open>Normalization\<close>

text \<open>
  A pandas column holds floats, and a float can be the missing value \<^verbatim>\<open>NaN\<close>: the
  quotient 0/0 of two floats is \<^verbatim>\<open>NaN\<close>, and pandas computes it without raising. The
  frames after normalization therefore hold values of the type \<open>fl\<close>.
\<close>

datatype fl = Val real | NaN

text \<open>
  One value of \<^verbatim>\<open>normalize_ohlc_data\<close>:
  \<^verbatim>\<open>round((value - _min) / (_max - _min) * random_multiplier, 4)\<close>. When \<^verbatim>\<open>_max\<close> equals
  \<^verbatim>\<open>_min\<close>, every value of the frame equals \<^verbatim>\<open>_min\<close>, so the quotient is 0/0.
\<close>

definition norm_value :: "real \<Rightarrow> real \<Rightarrow> nat \<Rightarrow> real \<Rightarrow> fl" where
  "norm_value mn mx m v =
     (if mx - mn = 0 then NaN else Val (np_round 4 ((v - mn) / (mx - mn) * real m)))"

text \<open>
  \<^verbatim>\<open>normalize_ohlc_data\<close>; \<open>raw\<close> feeds \<^verbatim>\<open>np.random.randint(9, 999)\<close>. The function has
  no \<^verbatim>\<open>raise\<close> statement and no test of \<^verbatim>\<open>_max\<close> against \<^verbatim>\<open>_min\<close>. On an empty frame
  there is no row to normalize.
\<close>

definition normalize_ohlc_data :: "frame \<Rightarrow> nat \<Rightarrow> error + fl candle list" where
  "normalize_ohlc_data df raw =
     (case randint 9 999 raw of
        Inl e \<Rightarrow> Inl e
      | Inr random_multiplier \<Rightarrow>
          if df = [] then Inr []
          else
            let mx = Max (set [Max (set (map open_c df)), Max (set (map high df)),
                               Max (set (map low df)), Max (set (map close df))]);
                mn = Min (set [Min (set (map open_c df)), Min (set (map high df)),
                               Min (set (map low df)), Min (set (map close df))])
            in Inr (map (\<lambda>c. \<lparr>date = date c,
                                  open_c = norm_value mn mx random_multiplier (open_c c),
                                  high = norm_value mn mx random_multiplier (high c),
                                  low = norm_value mn mx random_multiplier (low c),
                                  close = norm_value mn mx random_multiplier (close c)\<rparr>) df))"

section \<open>Resampling\<close>

text \<open>The keys of \<^verbatim>\<open>self.__resampled_data\<close>: \<^verbatim>\<open>"1min"\<close>, \<^verbatim>\<open>"5min"\<close>, ..., \<^verbatim>\<open>"1M"\<close>.\<close>

datatype timeframe = T1min | T5min | T15min | T30min | T1H | T2H | T4H | T1D | T3D | T1W | T1M





text \<open>
  The bins of \<^verbatim>\<open>df.resample(timeframe, label="right", closed="right")\<close>. A bin is closed
  on the right and labelled by its right edge: a row stamped \<open>t\<close> belongs to the bin whose
  label is the first edge at or after \<open>t\<close>. The edges of the timeframes up to one day
  are the multiples of the period counted from midnight (\<open>tick_period\<close> gives the period
  in minutes). The edges of \<^verbatim>\<open>"3D"\<close> are every third day from the day of the first row
  (\<open>origin\<close>), those of \<^verbatim>\<open>"1W"\<close> the Sundays (2000-01-01, day 0, is a Saturday), those of
  \<^verbatim>\<open>"1M"\<close> the last days of the months (pandas' \<^verbatim>\<open>W-SUN\<close> and month-end offsets); for
  these three a row stamped at any time of the edge's day belongs to the bin of that
  edge, and the label is midnight of that day.
\<close>

fun tick_period :: "timeframe \<Rightarrow> nat option" where
  "tick_period T1min = Some 1"
| "tick_period T5min = Some 5"
| "tick_period T15min = Some 15"
| "tick_period T30min = Some 30"
| "tick_period T1H = Some 60"
| "tick_period T2H = Some 120"
| "tick_period T4H = Some 240"
| "tick_period T1D = Some 1440"
| "tick_period T3D = None"
| "tick_period T1W = None"
| "tick_period T1M = None"

definition ceil_to :: "nat \<Rightarrow> nat \<Rightarrow> nat" where
  "ceil_to p t = (t + p - 1) div p * p"

definition is_leap :: "nat \<Rightarrow> bool" where
  "is_leap y = (y mod 4 = 0 \<and> (y mod 100 \<noteq> 0 \<or> y mod 400 = 0))"

definition days_in_month :: "nat \<Rightarrow> nat \<Rightarrow> nat" where
  "days_in_month y m =
     (if m = 2 then (if is_leap y then 29 else 28)
      else if m = 4 \<or> m = 6 \<or> m = 9 \<or> m = 11 then 30 else 31)"

text \<open>The last day of the month that holds day \<open>d\<close>, searched from month \<open>m\<close> of year
  \<open>y\<close>, whose first day is day \<open>first\<close>; days count from 2000-01-01.\<close>

function month_end_from :: "nat \<Rightarrow> nat \<Rightarrow> nat \<Rightarrow> nat \<Rightarrow> nat" where
  "month_end_from y m first d =
     (if d < first + days_in_month y m then first + days_in_month y m - 1
      else month_end_from (if m = 12 then y + 1 else y) (if m = 12 then 1 else m + 1)
             (first + days_in_month y m) d)"
  by pat_completeness auto
termination
  by (relation "measure (\<lambda>(y, m, first, d). d - first)") (auto simp: days_in_month_def)

declare month_end_from.simps [simp del]

definition month_end :: "nat \<Rightarrow> nat" where
  "month_end d = month_end_from 2000 1 0 d"

definition week_end :: "nat \<Rightarrow> nat" where
  "week_end d = d + (6 - (d + 5) mod 7)"

fun bin_label :: "timeframe \<Rightarrow> nat \<Rightarrow> nat \<Rightarrow> nat" where
  "bin_label T1min origin t = t"
| "bin_label T5min origin t = ceil_to 5 t"
| "bin_label T15min origin t = ceil_to 15 t"
| "bin_label T30min origin t = ceil_to 30 t"
| "bin_label T1H origin t = ceil_to 60 t"
| "bin_label T2H origin t = ceil_to 120 t"
| "bin_label T4H origin t = ceil_to 240 t"
| "bin_label T1D origin t = ceil_to 1440 t"
| "bin_label T3D origin t = (origin + ceil_to 3 (t div 1440 - origin)) * 1440"
| "bin_label T1W origin t = week_end (t div 1440) * 1440"
| "bin_label T1M origin t = month_end (t div 1440) * 1440"

text \<open>
  pandas lays out every bin from the bin of the first row to the bin of the last row,
  whether rows fall into it or not: \<open>bin_edges tf origin lo hi\<close> lists the labels of
  these bins, the edges from the label \<open>lo\<close> to the label \<open>hi\<close>. An edge is a stamp
  that is its own label.
\<close>

definition bin_edges :: "timeframe \<Rightarrow> nat \<Rightarrow> nat \<Rightarrow> nat \<Rightarrow> nat list" where
  "bin_edges tf origin lo hi =
     (case tick_period tf of
        Some p \<Rightarrow> map (\<lambda>k. k * p) [lo div p..<Suc (hi div p)]
      | None \<Rightarrow>
          map (\<lambda>l. l * 1440)
            (filter (\<lambda>l. bin_label tf origin (l * 1440) = l * 1440)
               [lo div 1440..<Suc (hi div 1440)]))"

text \<open>
  The aggregations of \<^verbatim>\<open>self.agg_dict\<close>: \<^verbatim>\<open>first\<close>, \<^verbatim>\<open>max\<close>, \<^verbatim>\<open>min\<close> and \<^verbatim>\<open>last\<close>.
  pandas skips missing values and answers \<^verbatim>\<open>NaN\<close> when a bin has no other value.
\<close>

fun valid :: "fl list \<Rightarrow> real list" where
  "valid [] = []"
| "valid (Val v # xs) = v # valid xs"
| "valid (NaN # xs) = valid xs"

definition agg_first :: "fl list \<Rightarrow> fl" where
  "agg_first xs = (case valid xs of [] \<Rightarrow> NaN | v # vs \<Rightarrow> Val v)"

definition agg_last :: "fl list \<Rightarrow> fl" where
  "agg_last xs = (case valid xs of [] \<Rightarrow> NaN | v # vs \<Rightarrow> Val (last (v # vs)))"

definition agg_max :: "fl list \<Rightarrow> fl" where
  "agg_max xs = (case valid xs of [] \<Rightarrow> NaN | v # vs \<Rightarrow> Val (Max (set (v # vs))))"

definition agg_min :: "fl list \<Rightarrow> fl" where
  "agg_min xs = (case valid xs of [] \<Rightarrow> NaN | v # vs \<Rightarrow> Val (Min (set (v # vs))))"

definition agg_dict :: "nat \<Rightarrow> fl candle list \<Rightarrow> fl candle" where
  "agg_dict label g =
     \<lparr>date = label, open_c = agg_first (map open_c g), high = agg_max (map high g),
      low = agg_min (map low g), close = agg_last (map close g)\<rparr>"

text \<open>
  \<^verbatim>\<open>__downsample_ohlc_data\<close>. pandas puts the rows in the order of their dates (rows
  of one date keep their order), takes midnight of the first row's day as origin, and
  gives one candle for every bin from the first row's to the last row's, stamped with the
  bin's label: the aggregate of the rows that carry this label. A bin without rows
  gives a candle of missing values.
\<close>

definition downsample_ohlc_data :: "timeframe \<Rightarrow> fl candle list \<Rightarrow> fl candle list" where
  "downsample_ohlc_data tf df =
     (case sort_key date df of
        [] \<Rightarrow> []
      | c0 # cs \<Rightarrow>
          map (\<lambda>l. agg_dict l
                     (filter (\<lambda>c. bin_label tf (date c0 div 1440) (date c) = l) (c0 # cs)))
            (bin_edges tf (date c0 div 1440)
               (bin_label tf (date c0 div 1440) (date c0))
               (bin_label tf (date c0 div 1440) (date (last (c0 # cs))))))"

text \<open>
  \<^verbatim>\<open>self.__resampled_data\<close>: a dictionary whose values start as \<^verbatim>\<open>None\<close>. The loop of
  \<^verbatim>\<open>resample_timeframes\<close> runs over the keys of the bars table and resamples the frame
  stored under \<^verbatim>\<open>prev_timeframe\<close>; resampling \<^verbatim>\<open>None\<close> would raise \<^verbatim>\<open>AttributeError\<close>.
\<close>

type_synonym family = "timeframe \<Rightarrow> fl candle list option"



section \<open>The whole run\<close>





text \<open>The ordering that the spec asks of a candle. A comparison with \<^verbatim>\<open>NaN\<close> is false.\<close>

definition ohlc_ok :: "fl candle \<Rightarrow> bool" where
  "ohlc_ok c =
     (case (open_c c, high c, low c, close c) of
        (Val o1, Val h, Val l, Val c1) \<Rightarrow> l \<le> min o1 c1 \<and> max o1 c1 \<le> h
      | _ \<Rightarrow> False)"

section \<open>Auxiliary definitions\<close>

text \<open>A frame of three candles, used to run the model on a concrete input.\<close>

definition example_frame :: frame where
  "example_frame =
     [\<lparr>date = 0, open_c = 10, high = 12, low = 9, close = 11\<rparr>,
      \<lparr>date = 1, open_c = 8, high = 8, low = 7, close = 7\<rparr>,
      \<lparr>date = 2, open_c = 13, high = 15, low = 13, close = 14\<rparr>]"

text \<open>
  A concrete run of the volatile periods: a frame of six minutes, constants, and draws
  that select the ranges from row 2 to row 4 and from row 3 to row 5; and the frame that
  the run gives for the start price -100 and the volatility 100.
\<close>

definition example_walk :: frame where
  "example_walk =
     [\<lparr>date = 0, open_c = 10, high = 12, low = 9, close = 11\<rparr>,
      \<lparr>date = 1, open_c = 11, high = 11, low = 7, close = 8\<rparr>,
      \<lparr>date = 2, open_c = 8, high = 15, low = 8, close = 14\<rparr>,
      \<lparr>date = 3, open_c = 14, high = 16, low = 13, close = 15\<rparr>,
      \<lparr>date = 4, open_c = 15, high = 15, low = 12, close = 12\<rparr>,
      \<lparr>date = 5, open_c = 12, high = 13, low = 11, close = 13\<rparr>]"

definition example_constants :: volatile_constants where
  "example_constants = \<lparr>VOLATILE_PROB = 100, VOLATILE_PERIOD_MIN = 1, VOLATILE_PERIOD_MAX = 3\<rparr>"

definition example_draws :: volatile_draws where
  "example_draws =
     \<lparr>chance_raw = 49, mask_raw = (\<lambda>i. if i = 1 \<or> i = 2 then 0 else 98),
      period_raw = (\<lambda>i. 0), end_raw = (\<lambda>i. 1), factor_u = (\<lambda>k. 0), gen_raw = (\<lambda>k. k),
      gen_z = (\<lambda>k dist i. real (i * Suc k))\<rparr>"

definition example_spliced :: frame where
  "example_spliced =
     [\<lparr>date = 0, open_c = 10, high = 12, low = 9, close = 11\<rparr>,
      \<lparr>date = 1, open_c = 11, high = 11, low = 7, close = 8\<rparr>,
      \<lparr>date = 2, open_c = 100, high = 100, low = 100, close = 100\<rparr>,
      \<lparr>date = 3, open_c = 100, high = 100, low = 100, close = 100\<rparr>,
      \<lparr>date = 4, open_c = 102, high = 102, low = 102, close = 102\<rparr>,
      \<lparr>date = 5, open_c = 506, high = 506, low = 506, close = 506\<rparr>]"

text \<open>Row \<open>i\<close> lies in one of the ranges (both ends of a range included).\<close>

definition covered :: "(nat \<times> nat) list \<Rightarrow> nat \<Rightarrow> bool" where
  "covered rs i = list_ex (\<lambda>(s, e). s \<le> i \<and> i \<le> e) rs"

text \<open>The four prices of a candle, and those of a candle made of a single tick at the
  price \<open>p\<close>.\<close>

definition prices :: "'a candle \<Rightarrow> 'a \<times> 'a \<times> 'a \<times> 'a" where
  "prices c = (open_c c, high c, low c, close c)"

definition flat :: "'a \<Rightarrow> 'a \<times> 'a \<times> 'a \<times> 'a" where
  "flat p = (p, p, p, p)"

text \<open>The \<^verbatim>\<open>_max\<close> and \<^verbatim>\<open>_min\<close> of \<^verbatim>\<open>normalize_ohlc_data\<close>, and the band of the scale bound.\<close>

definition frame_max :: "frame \<Rightarrow> real" where
  "frame_max df = Max (set [Max (set (map open_c df)), Max (set (map high df)),
                            Max (set (map low df)), Max (set (map close df))])"

definition frame_min :: "frame \<Rightarrow> real" where
  "frame_min df = Min (set [Min (set (map open_c df)), Min (set (map high df)),
                            Min (set (map low df)), Min (set (map close df))])"

definition in_band :: "nat \<Rightarrow> fl \<Rightarrow> bool" where
  "in_band m x = (case x of Val v \<Rightarrow> 0 \<le> v \<and> v \<le> real m | NaN \<Rightarrow> False)"

text \<open>A frame whose values are all 5.\<close>

definition constant_frame :: frame where
  "constant_frame =
     [\<lparr>date = 0, open_c = 5, high = 5, low = 5, close = 5\<rparr>,
      \<lparr>date = 1, open_c = 5, high = 5, low = 5, close = 5\<rparr>]"

text \<open>The scaled and rounded value, where the frame is not constant.\<close>

definition scaled :: "real \<Rightarrow> real \<Rightarrow> nat \<Rightarrow> real \<Rightarrow> real" where
  "scaled mn mx m v = np_round 4 ((v - mn) / (mx - mn) * real m)"

text \<open>The value of a float that is not missing.\<close>

fun the_val :: "fl \<Rightarrow> real" where
  "the_val (Val v) = v"
| "the_val NaN = 0"

fun is_val :: "fl \<Rightarrow> bool" where
  "is_val (Val v) = True"
| "is_val NaN = False"

text \<open>The frame that a run stores under a timeframe; \<open>None\<close> when the run raised.\<close>

definition family_series :: "error + family \<Rightarrow> timeframe \<Rightarrow> fl candle list option" where
  "family_series res tf = (case res of Inl e \<Rightarrow> None | Inr fam \<Rightarrow> fam tf)"

text \<open>\<open>built_from fam prev tf\<close>: the frame stored under \<open>tf\<close> is the resampling of the frame
  stored under \<open>prev\<close>.\<close>

definition built_from :: "family \<Rightarrow> timeframe \<Rightarrow> timeframe \<Rightarrow> bool" where
  "built_from fam prev tf =
     (case fam prev of None \<Rightarrow> False | Some s \<Rightarrow> fam tf = Some (downsample_ohlc_data tf s))"

text \<open>The frames without missing values.\<close>

definition all_present :: "fl candle list \<Rightarrow> bool" where
  "all_present g =
     list_all (\<lambda>c. is_val (open_c c) \<and> is_val (high c) \<and> is_val (low c) \<and> is_val (close c)) g"

text \<open>Two candles, stamped on Saturday 2000-01-01 and on Sunday 2000-01-02 at midnight.\<close>

definition weekend_frame :: "fl candle list" where
  "weekend_frame =
     [\<lparr>date = 0, open_c = Val 1, high = Val 2, low = Val 1, close = Val 2\<rparr>,
      \<lparr>date = 1440, open_c = Val 2, high = Val 3, low = Val 2, close = Val 3\<rparr>]"

section \<open>Properties of the distribution choice\<close>

lemma randint_dist_key:
  "randint 1 (length distribution_functions) raw = Inr (1 + raw mod 2)"
proof -
  have len: "length distribution_functions = 3"
    by (simp add: distribution_functions_def)
  show ?thesis unfolding len randint_def by simp
qed

lemma choose_dist_func_cases:
  "choose_dist_func raw = Inr (Some (if even raw then Normal else Laplace))"
proof (cases "even raw")
  case True
  then have "raw mod 2 = 0" by presburger
  then show ?thesis using True
    unfolding choose_dist_func_def randint_dist_key
    by (simp add: distribution_functions_def)
next
  case False
  then have "raw mod 2 = 1" by presburger
  then show ?thesis using False
    unfolding choose_dist_func_def randint_dist_key
    by (simp add: distribution_functions_def)
qed

text \<open>
  Claim C8. The step generator is meant to select one of normal, Laplace and logistic.
  In the code the key is \<^verbatim>\<open>np.random.randint(1, 3)\<close>, whose upper bound is exclusive:
  whatever the random source hands out, the key is 1 or 2, so the normal and the Laplace
  distribution are each selected by some state of the source, and the logistic
  distribution (key 3) by none.
\<close>

theorem choose_dist_func_never_logistic:
  "choose_dist_func raw \<noteq> Inr (Some Logistic)
   \<and> choose_dist_func 0 = Inr (Some Normal)
   \<and> choose_dist_func 1 = Inr (Some Laplace)"
  by (simp add: choose_dist_func_cases)

section \<open>Properties of rounding\<close>

lemma round_half_even_cases:
  "round_half_even x = \<lfloor>x\<rfloor> \<or> round_half_even x = \<lfloor>x\<rfloor> + 1"
  by (simp add: round_half_even_def Let_def)

lemma round_half_even_of_int [simp]: "round_half_even (of_int n) = n"
  by (simp add: round_half_even_def Let_def)

lemma round_half_even_mono:
  assumes "x \<le> y"
  shows "round_half_even x \<le> round_half_even y"
proof -
  have fl: "\<lfloor>x\<rfloor> \<le> \<lfloor>y\<rfloor>" using assms by (rule floor_mono)
  show ?thesis
  proof (cases "\<lfloor>x\<rfloor> = \<lfloor>y\<rfloor>")
    case True
    then have "x - of_int \<lfloor>x\<rfloor> \<le> y - of_int \<lfloor>y\<rfloor>" using assms by simp
    then show ?thesis using True
      by (auto simp: round_half_even_def Let_def)
  next
    case False
    with fl have "\<lfloor>x\<rfloor> + 1 \<le> \<lfloor>y\<rfloor>" by simp
    moreover have "round_half_even x \<le> \<lfloor>x\<rfloor> + 1"
      using round_half_even_cases [of x] by auto
    moreover have "\<lfloor>y\<rfloor> \<le> round_half_even y"
      using round_half_even_cases [of y] by auto
    ultimately show ?thesis by linarith
  qed
qed

lemma round_half_even_minus: "round_half_even (- x) = - round_half_even x"
proof (cases "x = of_int \<lfloor>x\<rfloor>")
  case True
  then obtain n where "x = of_int n" ..
  then have "- x = of_int (- n)" by simp
  then show ?thesis using \<open>x = of_int n\<close> by (simp only: round_half_even_of_int)
next
  case False
  then have fm: "\<lfloor>- x\<rfloor> = - \<lfloor>x\<rfloor> - 1"
    by (simp add: floor_minus ceiling_altdef)
  have ev: "even (- \<lfloor>x\<rfloor> - 1) \<longleftrightarrow> odd \<lfloor>x\<rfloor>" by simp
  show ?thesis
    unfolding round_half_even_def Let_def fm ev
    by (auto simp: field_simps)
qed

lemma np_round_mono: "x \<le> y \<Longrightarrow> np_round d x \<le> np_round d y"
  by (simp add: np_round_def divide_right_mono round_half_even_mono)

lemma np_round_of_nat [simp]: "np_round d (of_nat n) = of_nat n"
proof -
  have "(of_nat n :: real) * 10 ^ d = of_int (int n * 10 ^ d)" by simp
  then have "round_half_even (of_nat n * 10 ^ d) = int n * 10 ^ d"
    by (simp only: round_half_even_of_int)
  then show ?thesis by (simp add: np_round_def)
qed

lemma np_round_0 [simp]: "np_round d 0 = 0"
  using np_round_of_nat [of d 0] by simp

lemma np_round_minus: "np_round d (- x) = - np_round d x"
  by (simp add: np_round_def round_half_even_minus)

lemma abs_np_round: "\<bar>np_round d x\<bar> = np_round d \<bar>x\<bar>"
proof (cases "0 \<le> x")
  case True
  then have "0 \<le> np_round d x" using np_round_mono [of 0 x d] by simp
  with True show ?thesis by simp
next
  case False
  then have "np_round d x \<le> 0" using np_round_mono [of x 0 d] by simp
  with False show ?thesis by (simp add: np_round_minus abs_if)
qed

section \<open>Properties of the random walk and of the volatile periods\<close>

lemma ohlc_bars_Nil [simp]: "ohlc_bars n m [] = []"
  by (simp add: ohlc_bars.simps)

lemma ohlc_bars_one_Cons:
  "ohlc_bars (Suc 0) m (x # xs) =
     \<lparr>date = m, open_c = x, high = x, low = x, close = x\<rparr> # ohlc_bars (Suc 0) (Suc m) xs"
  by (subst ohlc_bars.simps) simp

lemma length_ohlc_bars_one [simp]: "length (ohlc_bars (Suc 0) m xs) = length xs"
  by (induction xs arbitrary: m) (simp_all add: ohlc_bars_one_Cons)

lemma length_cumsum_from [simp]: "length (cumsum_from a xs) = length xs"
  by (induction xs arbitrary: a) simp_all

lemma steps_first_zero:
  "0 < n \<Longrightarrow> (map f [0..<n])[0 := (0::real)] = 0 # map f [1..<n]"
  by (cases n) (simp_all add: upt_conv_Cons del: upt_Suc)

text \<open>The walk with one tick per minute: one candle per tick, the first at the start price.\<close>

lemma generate_random_df_1min:
  assumes "generate_random_df n Freq_1min sp vol raw z = Inr df"
  shows "length df = n"
    and "df \<noteq> []"
    and "hd df = \<lparr>date = 0, open_c = \<bar>np_round 6 sp\<bar>, high = \<bar>np_round 6 sp\<bar>,
                  low = \<bar>np_round 6 sp\<bar>, close = \<bar>np_round 6 sp\<bar>\<rparr>"
proof -
  obtain d where d: "choose_dist_func raw = Inr (Some d)"
    using choose_dist_func_cases by blast
  from assms have n: "0 < n" and v: "\<not> vol < 0"
    by (auto simp: generate_random_df_def d split: if_splits)
  let ?steps = "0 # map (\<lambda>i. vol * z d i) [1..<n]"
  have st: "(map (\<lambda>i. vol * z d i) [0..<n])[0 := 0] = ?steps"
    using n by (rule steps_first_zero)
  have "generate_random_df n Freq_1min sp vol raw z = Inr (ohlc_bars (Suc 0) 0
      (map (\<lambda>p. \<bar>np_round 6 p\<bar>) (map (\<lambda>s. sp + s) (cumsum ?steps))))"
    using n v by (simp add: generate_random_df_def d Let_def st)
  with assms have df: "df = ohlc_bars (Suc 0) 0
      (map (\<lambda>p. \<bar>np_round 6 p\<bar>) (map (\<lambda>s. sp + s) (cumsum ?steps)))"
    by simp
  show "length df = n" using n by (simp add: df cumsum_def)
  then show "df \<noteq> []" using n by auto
  have "cumsum ?steps = 0 # cumsum_from 0 (map (\<lambda>i. vol * z d i) [1..<n])"
    by (simp add: cumsum_def)
  then show "hd df = \<lparr>date = 0, open_c = \<bar>np_round 6 sp\<bar>, high = \<bar>np_round 6 sp\<bar>,
                  low = \<bar>np_round 6 sp\<bar>, close = \<bar>np_round 6 sp\<bar>\<rparr>"
    by (simp add: df ohlc_bars_one_Cons)
qed

lemma loc_assign_nth:
  assumes "loc_assign starti endi new_df df = Inr df'" and "i < length df"
  shows "df' ! i = (if starti \<le> i \<and> i \<le> endi
                    then (df ! i)\<lparr>open_c := open_c (new_df ! (i - starti)),
                                  high := high (new_df ! (i - starti)),
                                  low := low (new_df ! (i - starti)),
                                  close := close (new_df ! (i - starti))\<rparr>
                    else df ! i)"
  using assms by (auto simp: loc_assign_def split: if_splits)

lemma loc_assign_length:
  "loc_assign starti endi new_df df = Inr df' \<Longrightarrow> length df' = length df"
  by (auto simp: loc_assign_def split: if_splits)

lemma loc_assign_dates:
  "loc_assign starti endi new_df df = Inr df' \<Longrightarrow> map date df' = map date df"
proof -
  assume "loc_assign starti endi new_df df = Inr df'"
  then have "map date df' = map (\<lambda>i. date (df ! i)) [0..<length df]"
    by (auto simp: loc_assign_def comp_def split: if_splits)
  also have "\<dots> = map date (map ((!) df) [0..<length df])" by (simp add: comp_def)
  also have "\<dots> = map date df" by (simp only: map_nth)
  finally show ?thesis .
qed

section \<open>Properties of the normalization\<close>

lemma randint_9_999: "randint 9 999 raw = Inr (9 + raw mod 990)"
  by (simp add: randint_def)

lemma normalize_unfold:
  "df \<noteq> [] \<Longrightarrow> normalize_ohlc_data df raw =
     Inr (map (\<lambda>c. \<lparr>date = date c,
            open_c = norm_value (frame_min df) (frame_max df) (9 + raw mod 990) (open_c c),
            high = norm_value (frame_min df) (frame_max df) (9 + raw mod 990) (high c),
            low = norm_value (frame_min df) (frame_max df) (9 + raw mod 990) (low c),
            close = norm_value (frame_min df) (frame_max df) (9 + raw mod 990) (close c)\<rparr>) df)"
  unfolding normalize_ohlc_data_def randint_9_999 frame_max_def frame_min_def Let_def sum.case
  by (simp only: if_False)

lemma normalize_Nil [simp]: "normalize_ohlc_data [] raw = Inr []"
  unfolding normalize_ohlc_data_def randint_9_999 by simp

lemma normalize_dates:
  "normalize_ohlc_data df raw = Inr ndf \<Longrightarrow> map date ndf = map date df"
  by (cases "df = []") (auto simp: normalize_unfold comp_def)

lemma frame_bounds:
  assumes "c \<in> set df"
  shows "frame_min df \<le> open_c c" "open_c c \<le> frame_max df"
    "frame_min df \<le> high c" "high c \<le> frame_max df"
    "frame_min df \<le> low c" "low c \<le> frame_max df"
    "frame_min df \<le> close c" "close c \<le> frame_max df"
proof -
  have o: "open_c c \<in> set (map open_c df)" and h: "high c \<in> set (map high df)"
    and l: "low c \<in> set (map low df)" and cl: "close c \<in> set (map close df)"
    using assms by simp_all
  have mo: "Min (set (map open_c df)) \<le> open_c c" "open_c c \<le> Max (set (map open_c df))"
    using o by (simp_all del: set_map)
  have mh: "Min (set (map high df)) \<le> high c" "high c \<le> Max (set (map high df))"
    using h by (simp_all del: set_map)
  have ml: "Min (set (map low df)) \<le> low c" "low c \<le> Max (set (map low df))"
    using l by (simp_all del: set_map)
  have mc: "Min (set (map close df)) \<le> close c" "close c \<le> Max (set (map close df))"
    using cl by (simp_all del: set_map)
  show "frame_min df \<le> open_c c" "open_c c \<le> frame_max df"
    "frame_min df \<le> high c" "high c \<le> frame_max df"
    "frame_min df \<le> low c" "low c \<le> frame_max df"
    "frame_min df \<le> close c" "close c \<le> frame_max df"
    using mo mh ml mc unfolding frame_min_def frame_max_def
    by (simp_all add: min_le_iff_disj le_max_iff_disj del: set_map)
qed

lemma norm_value_scaled: "mn < mx \<Longrightarrow> norm_value mn mx m v = Val (scaled mn mx m v)"
  by (simp add: norm_value_def scaled_def)

lemma scaled_mono: "mn < mx \<Longrightarrow> v \<le> w \<Longrightarrow> scaled mn mx m v \<le> scaled mn mx m w"
  unfolding scaled_def
  by (intro np_round_mono mult_right_mono divide_right_mono) simp_all

lemma scaled_band:
  assumes "mn < mx" "mn \<le> v" "v \<le> mx"
  shows "0 \<le> scaled mn mx m v" "scaled mn mx m v \<le> real m"
proof -
  have "scaled mn mx m mn \<le> scaled mn mx m v" using assms by (intro scaled_mono)
  then show "0 \<le> scaled mn mx m v" by (simp add: scaled_def)
  have "scaled mn mx m v \<le> scaled mn mx m mx" using assms by (intro scaled_mono)
  moreover have "scaled mn mx m mx = real m" using assms by (simp add: scaled_def)
  ultimately show "scaled mn mx m v \<le> real m" by simp
qed

lemma in_band_scaled:
  "mn < mx \<Longrightarrow> mn \<le> v \<Longrightarrow> v \<le> mx \<Longrightarrow> in_band m (Val (scaled mn mx m v))"
  by (simp only: in_band_def fl.case scaled_band simp_thms)

text \<open>
  Claim C7, as the code has it. On a base frame whose largest and smallest value
  coincide, \<^verbatim>\<open>normalize_ohlc_data\<close> raises nothing: it divides zero by zero and returns
  the frame with the same dates in which every open, high, low and close is \<^verbatim>\<open>NaN\<close>.
\<close>

theorem normalize_constant_frame:
  assumes "df \<noteq> []" and "frame_max df = frame_min df"
  shows "normalize_ohlc_data df raw =
     Inr (map (\<lambda>c. \<lparr>date = date c, open_c = NaN, high = NaN, low = NaN, close = NaN\<rparr>) df)"
  using assms by (simp add: normalize_unfold norm_value_def)

theorem normalize_constant_frame_witness:
  "constant_frame \<noteq> [] \<and> frame_max constant_frame = frame_min constant_frame
   \<and> normalize_ohlc_data constant_frame 3 =
       Inr [\<lparr>date = 0, open_c = NaN, high = NaN, low = NaN, close = NaN\<rparr>,
            \<lparr>date = 1, open_c = NaN, high = NaN, low = NaN, close = NaN\<rparr>]"
proof -
  have ne: "constant_frame \<noteq> []" by (simp add: constant_frame_def)
  have eq: "frame_max constant_frame = frame_min constant_frame"
    by (simp add: constant_frame_def frame_max_def frame_min_def)
  from normalize_constant_frame [OF ne eq, of 3] ne eq show ?thesis
    by (simp add: constant_frame_def)
qed

text \<open>
  The claim C7 as stated (a constant frame makes the normalization raise) fails on the
  frame of one candle with all values 5: the call returns a frame.
\<close>

theorem normalize_constant_no_error:
  "normalize_ohlc_data [\<lparr>date = 0, open_c = 5, high = 5, low = 5, close = 5\<rparr>] 0 =
     Inr [\<lparr>date = 0, open_c = NaN, high = NaN, low = NaN, close = NaN\<rparr>]"
  by (simp add: normalize_unfold norm_value_def frame_max_def frame_min_def)

text \<open>
  Claim C9, as the code has it. When the base frame is not constant, every open, high,
  low and close of the normalized frame is \<open>(value - min) / (max - min)\<close> times the
  multiplier, rounded to four decimals, and lies between 0 and the multiplier; the
  multiplier is the single draw of \<^verbatim>\<open>np.random.randint(9, 999)\<close>.
\<close>

theorem normalize_scale_bound:
  assumes "normalize_ohlc_data df raw = Inr ndf" and "frame_min df < frame_max df"
  shows "ndf = map (\<lambda>c. \<lparr>date = date c,
            open_c = Val (np_round 4 ((open_c c - frame_min df) / (frame_max df - frame_min df)
                            * real (9 + raw mod 990))),
            high = Val (np_round 4 ((high c - frame_min df) / (frame_max df - frame_min df)
                            * real (9 + raw mod 990))),
            low = Val (np_round 4 ((low c - frame_min df) / (frame_max df - frame_min df)
                            * real (9 + raw mod 990))),
            close = Val (np_round 4 ((close c - frame_min df) / (frame_max df - frame_min df)
                            * real (9 + raw mod 990)))\<rparr>) df
    \<and> randint 9 999 raw = Inr (9 + raw mod 990)
    \<and> list_all (\<lambda>c. in_band (9 + raw mod 990) (open_c c) \<and> in_band (9 + raw mod 990) (high c)
                  \<and> in_band (9 + raw mod 990) (low c) \<and> in_band (9 + raw mod 990) (close c)) ndf"
proof (cases "df = []")
  case True
  with assms show ?thesis by (simp add: randint_9_999)
next
  case False
  let ?mn = "frame_min df" and ?mx = "frame_max df" and ?m = "9 + raw mod 990"
  from assms(1) False have ndf: "ndf = map (\<lambda>c. \<lparr>date = date c,
            open_c = Val (scaled ?mn ?mx ?m (open_c c)),
            high = Val (scaled ?mn ?mx ?m (high c)),
            low = Val (scaled ?mn ?mx ?m (low c)),
            close = Val (scaled ?mn ?mx ?m (close c))\<rparr>) df"
    by (simp add: normalize_unfold norm_value_scaled [OF assms(2)])
  have band: "in_band ?m (Val (scaled ?mn ?mx ?m (open_c c)))
      \<and> in_band ?m (Val (scaled ?mn ?mx ?m (high c)))
      \<and> in_band ?m (Val (scaled ?mn ?mx ?m (low c)))
      \<and> in_band ?m (Val (scaled ?mn ?mx ?m (close c)))" if "c \<in> set df" for c
    using frame_bounds [OF that] by (simp only: in_band_scaled [OF assms(2)] simp_thms)
  have "list_all (\<lambda>c. in_band ?m (open_c c) \<and> in_band ?m (high c)
                  \<and> in_band ?m (low c) \<and> in_band ?m (close c)) ndf"
    unfolding ndf list_all_iff using band by simp
  with ndf show ?thesis by (simp add: randint_9_999 scaled_def)
qed

theorem normalize_scale_bound_witness:
  "normalize_ohlc_data example_frame 3 =
     Inr [\<lparr>date = 0, open_c = Val (9 / 2), high = Val (15 / 2), low = Val 3, close = Val 6\<rparr>,
          \<lparr>date = 1, open_c = Val (3 / 2), high = Val (3 / 2), low = Val 0, close = Val 0\<rparr>,
          \<lparr>date = 2, open_c = Val 9, high = Val 12, low = Val 9, close = Val (21 / 2)\<rparr>]
   \<and> frame_min example_frame < frame_max example_frame
   \<and> in_band 12 (Val (15 / 2)) \<and> in_band 12 (Val 12) \<and> in_band 12 (Val 0)"
proof -
  have n: "normalize_ohlc_data example_frame 3 =
     Inr [\<lparr>date = 0, open_c = Val (9 / 2), high = Val (15 / 2), low = Val 3, close = Val 6\<rparr>,
          \<lparr>date = 1, open_c = Val (3 / 2), high = Val (3 / 2), low = Val 0, close = Val 0\<rparr>,
          \<lparr>date = 2, open_c = Val 9, high = Val 12, low = Val 9, close = Val (21 / 2)\<rparr>]"
    by code_simp
  have lt: "frame_min example_frame < frame_max example_frame"
    by (simp add: example_frame_def frame_max_def frame_min_def)
  from normalize_scale_bound [OF n lt] have
    "in_band 12 (Val (15 / 2)) \<and> in_band 12 (Val 12) \<and> in_band 12 (Val 0)"
    by simp
  with n lt show ?thesis by simp
qed

text \<open>
  The claim C9 as stated (for every base frame) fails on a constant frame: the values
  are \<^verbatim>\<open>NaN\<close>, which lies in no band.
\<close>

theorem normalize_scale_bound_fails_on_constant:
  "normalize_ohlc_data [\<lparr>date = 0, open_c = 7, high = 7, low = 7, close = 7\<rparr>] 3 =
     Inr [\<lparr>date = 0, open_c = NaN, high = NaN, low = NaN, close = NaN\<rparr>]
   \<and> randint 9 999 3 = Inr 12
   \<and> \<not> in_band 12 NaN"
  by (simp add: normalize_unfold norm_value_def frame_max_def frame_min_def in_band_def
      randint_def)

section \<open>The correction pass, the connection and the whole run\<close>

lemma correct_lowcolumn_error_raises: "correct_lowcolumn_error df = Inl ValueError"
  by (simp add: correct_lowcolumn_error_def np_min_def)

lemma correct_highcolumn_error_raises: "correct_highcolumn_error df = Inl ValueError"
  by (simp add: correct_highcolumn_error_def np_max_def)

lemma correction_pass_raises: "ohlc_corrector df = Inl ValueError"
  by (simp add: ohlc_corrector_def correct_lowcolumn_error_raises)

lemma connection_raises: "connect_open_close_candles start_price df = Inl ValueError"
  by (simp add: connect_open_close_candles_def correction_pass_raises)


text \<open>When the volatile periods go through, the exception is the \<^verbatim>\<open>ValueError\<close> of
  \<^verbatim>\<open>np.min\<close>.\<close>

lemma create_realistic_ohlc_ValueError:
  "create_volatile_periods k start_price volatility d df = Inr df'
   \<Longrightarrow> create_realistic_ohlc k start_price volatility d df = Inl ValueError"
  by (simp add: create_realistic_ohlc_def connection_raises)



text \<open>
  Claim C2. The claim describes what the two correction functions return. They return
  nothing: on every frame, also on one whose lows and highs are in order, each of the two
  raises \<^verbatim>\<open>ValueError\<close>, because \<^verbatim>\<open>np.min\<close> and \<^verbatim>\<open>np.max\<close> are called with the second
  and third column in the places of \<^verbatim>\<open>axis\<close> and \<^verbatim>\<open>out\<close>.
\<close>

theorem correction_functions_raise:
  "correct_lowcolumn_error df = Inl ValueError \<and> correct_highcolumn_error df = Inl ValueError"
  by (simp add: correct_lowcolumn_error_raises correct_highcolumn_error_raises)




section \<open>The loop of the volatile periods\<close>

lemma np_round_numeral: "np_round d (numeral n) = numeral n"
  using np_round_of_nat [of d "numeral n"] by simp

lemma volatile_replacement_first:
  assumes "volatile_replacement sp vol d k s e = Inr new_df"
  shows "new_df \<noteq> []" and "prices (hd new_df) = flat (np_round 6 \<bar>sp\<bar>)"
proof -
  from assms have g: "generate_random_df (nat (int e - int s + 1)) Freq_1min sp
      (vol * (1.01 + (1.02 - 1.01) * factor_u d k)) (gen_raw d k) (gen_z d k) = Inr new_df"
    by (simp add: volatile_replacement_def split: if_splits)
  show "new_df \<noteq> []" using generate_random_df_1min(2) [OF g] .
  show "prices (hd new_df) = flat (np_round 6 \<bar>sp\<bar>)"
    by (simp add: generate_random_df_1min(3) [OF g] prices_def flat_def abs_np_round)
qed

lemma loc_assign_selection:
  assumes "loc_assign s e new_df df = Inr df'" and "new_df \<noteq> []"
  shows "s \<le> e \<and> s < length df"
proof -
  from assms(1) have "length new_df = length (filter (\<lambda>i. s \<le> i \<and> i \<le> e) [0..<length df])"
    by (auto simp: loc_assign_def split: if_splits)
  with assms(2) have "filter (\<lambda>i. s \<le> i \<and> i \<le> e) [0..<length df] \<noteq> []" by auto
  then obtain i where "i \<in> set [0..<length df]" "s \<le> i" "i \<le> e"
    by (auto simp: filter_empty_conv)
  then show ?thesis by auto
qed

lemma splice_loop_Cons:
  assumes "splice_loop sp vol d k ((s, e) # rs) df = Inr df'"
  obtains new_df df1 where "volatile_replacement sp vol d k s e = Inr new_df"
    and "loc_assign s e new_df df = Inr df1"
    and "splice_loop sp vol d (Suc k) rs df1 = Inr df'"
  using assms by (auto split: sum.splits)

lemma splice_loop_frame:
  "splice_loop sp vol d k rs df = Inr df'
   \<Longrightarrow> length df' = length df \<and> map date df' = map date df"
proof (induction rs arbitrary: k df)
  case Nil
  then show ?case by simp
next
  case (Cons r rs)
  obtain s e where r: "r = (s, e)" by (cases r)
  from Cons.prems obtain new_df df1 where
    l: "loc_assign s e new_df df = Inr df1" and
    t: "splice_loop sp vol d (Suc k) rs df1 = Inr df'"
    unfolding r by (rule splice_loop_Cons)
  from Cons.IH [OF t] loc_assign_length [OF l] loc_assign_dates [OF l]
  show ?case by simp
qed

lemma splice_loop_outside:
  "splice_loop sp vol d k rs df = Inr df' \<Longrightarrow> i < length df \<Longrightarrow> \<not> covered rs i
   \<Longrightarrow> df' ! i = df ! i"
proof (induction rs arbitrary: k df)
  case Nil
  then show ?case by simp
next
  case (Cons r rs)
  obtain s e where r: "r = (s, e)" by (cases r)
  from Cons.prems(1) obtain new_df df1 where
    l: "loc_assign s e new_df df = Inr df1" and
    t: "splice_loop sp vol d (Suc k) rs df1 = Inr df'"
    unfolding r by (rule splice_loop_Cons)
  from Cons.prems(3) have out: "\<not> (s \<le> i \<and> i \<le> e)" and nc: "\<not> covered rs i"
    by (simp_all add: covered_def r)
  have len: "i < length df1" using loc_assign_length [OF l] Cons.prems(2) by simp
  have "df' ! i = df1 ! i" using Cons.IH [OF t len nc] .
  also have "df1 ! i = df ! i"
    using loc_assign_nth [OF l Cons.prems(2)] out by simp
  finally show ?case .
qed

lemma splice_loop_inside:
  "splice_loop sp vol d k rs df = Inr df' \<Longrightarrow> j < length rs
   \<Longrightarrow> \<exists>new_df. volatile_replacement sp vol d (k + j) (fst (rs ! j)) (snd (rs ! j)) = Inr new_df
         \<and> fst (rs ! j) \<le> snd (rs ! j) \<and> fst (rs ! j) < length df
         \<and> (\<forall>i. fst (rs ! j) \<le> i \<and> i \<le> snd (rs ! j) \<and> i < length df
                  \<and> \<not> covered (drop (Suc j) rs) i
               \<longrightarrow> prices (df' ! i) = prices (new_df ! (i - fst (rs ! j))))"
proof (induction rs arbitrary: k df j)
  case Nil
  then show ?case by simp
next
  case (Cons r rs)
  obtain s e where r: "r = (s, e)" by (cases r)
  from Cons.prems(1) obtain new_df df1 where
    v: "volatile_replacement sp vol d k s e = Inr new_df" and
    l: "loc_assign s e new_df df = Inr df1" and
    t: "splice_loop sp vol d (Suc k) rs df1 = Inr df'"
    unfolding r by (rule splice_loop_Cons)
  have len: "length df1 = length df" using loc_assign_length [OF l] .
  show ?case
  proof (cases j)
    case 0
    have sel: "s \<le> e \<and> s < length df"
      using loc_assign_selection [OF l volatile_replacement_first(1) [OF v]] .
    have rows: "prices (df' ! i) = prices (new_df ! (i - s))"
      if "s \<le> i" "i \<le> e" "i < length df" "\<not> covered rs i" for i
    proof -
      have "df' ! i = df1 ! i"
        using splice_loop_outside [OF t _ that(4)] that(3) len by simp
      then show ?thesis
        using loc_assign_nth [OF l that(3)] that(1,2) by (simp add: prices_def)
    qed
    show ?thesis using v sel rows by (simp add: 0 r)
  next
    case (Suc j')
    then have j': "j' < length rs" using Cons.prems(2) by simp
    from Cons.IH [OF t j'] show ?thesis by (simp add: Suc len)
  qed
qed

text \<open>
  Claim C10. When \<^verbatim>\<open>__create_volatile_periods\<close> returns, the frame has its length and its
  dates, and the rows outside every range are as they were. For the \<open>j\<close>-th range
  the loop has generated the walk \<open>volatile_replacement start_price volatility d j\<close>: its
  first candle is the single tick \<open>np_round 6 \<bar>start_price\<bar>\<close>, the start price of the run,
  whatever prices the frame holds at that place; the range is not empty and starts
  within the frame; and every row of the range that no later range covers again holds
  the prices of this walk, the row at the start of the range those of its first candle.
\<close>

theorem create_volatile_periods_start_price:
  assumes "create_volatile_periods k start_price volatility d df = Inr df'"
  shows "\<exists>ranges. volatile_ranges k d (length df) = Inr ranges
     \<and> length df' = length df \<and> map date df' = map date df
     \<and> (\<forall>i<length df. \<not> covered ranges i \<longrightarrow> df' ! i = df ! i)
     \<and> (\<forall>j<length ranges.
          \<exists>new_df. volatile_replacement start_price volatility d j
                      (fst (ranges ! j)) (snd (ranges ! j)) = Inr new_df
            \<and> prices (hd new_df) = flat (np_round 6 \<bar>start_price\<bar>)
            \<and> fst (ranges ! j) \<le> snd (ranges ! j) \<and> fst (ranges ! j) < length df
            \<and> (\<forall>i. fst (ranges ! j) \<le> i \<and> i \<le> snd (ranges ! j) \<and> i < length df
                     \<and> \<not> covered (drop (Suc j) ranges) i
                  \<longrightarrow> prices (df' ! i) = prices (new_df ! (i - fst (ranges ! j))))
            \<and> (\<not> covered (drop (Suc j) ranges) (fst (ranges ! j))
                  \<longrightarrow> prices (df' ! fst (ranges ! j)) = flat (np_round 6 \<bar>start_price\<bar>)))"
proof -
  from assms obtain ranges where
    r: "volatile_ranges k d (length df) = Inr ranges" and
    s: "splice_loop start_price volatility d 0 ranges df = Inr df'"
    by (auto simp: create_volatile_periods_def split: sum.splits)
  have inside: "\<exists>new_df. volatile_replacement start_price volatility d j
                      (fst (ranges ! j)) (snd (ranges ! j)) = Inr new_df
            \<and> prices (hd new_df) = flat (np_round 6 \<bar>start_price\<bar>)
            \<and> fst (ranges ! j) \<le> snd (ranges ! j) \<and> fst (ranges ! j) < length df
            \<and> (\<forall>i. fst (ranges ! j) \<le> i \<and> i \<le> snd (ranges ! j) \<and> i < length df
                     \<and> \<not> covered (drop (Suc j) ranges) i
                  \<longrightarrow> prices (df' ! i) = prices (new_df ! (i - fst (ranges ! j))))
            \<and> (\<not> covered (drop (Suc j) ranges) (fst (ranges ! j))
                  \<longrightarrow> prices (df' ! fst (ranges ! j)) = flat (np_round 6 \<bar>start_price\<bar>))"
    if j: "j < length ranges" for j
  proof -
    from splice_loop_inside [OF s j] obtain new_df where
      v: "volatile_replacement start_price volatility d j
            (fst (ranges ! j)) (snd (ranges ! j)) = Inr new_df" and
      sel: "fst (ranges ! j) \<le> snd (ranges ! j)" "fst (ranges ! j) < length df" and
      rows: "\<forall>i. fst (ranges ! j) \<le> i \<and> i \<le> snd (ranges ! j) \<and> i < length df
                     \<and> \<not> covered (drop (Suc j) ranges) i
                  \<longrightarrow> prices (df' ! i) = prices (new_df ! (i - fst (ranges ! j)))"
      by auto
    have first: "prices (hd new_df) = flat (np_round 6 \<bar>start_price\<bar>)"
      and ne: "new_df \<noteq> []"
      using volatile_replacement_first [OF v] by simp_all
    have "prices (df' ! fst (ranges ! j)) = flat (np_round 6 \<bar>start_price\<bar>)"
      if "\<not> covered (drop (Suc j) ranges) (fst (ranges ! j))"
    proof -
      from rows sel that
      have "prices (df' ! fst (ranges ! j)) = prices (new_df ! 0)" by force
      then show ?thesis using first ne by (simp add: hd_conv_nth)
    qed
    with v first sel rows show ?thesis by blast
  qed
  from r splice_loop_frame [OF s] splice_loop_outside [OF s] inside
  show ?thesis by blast
qed

theorem create_volatile_periods_witness:
  "create_volatile_periods example_constants (- 100) 100 example_draws example_walk
     = Inr example_spliced
   \<and> volatile_ranges example_constants example_draws (length example_walk)
       = Inr [(2, 4), (3, 5)]
   \<and> map date example_spliced = map date example_walk
   \<and> example_spliced ! 0 = example_walk ! 0 \<and> example_spliced ! 1 = example_walk ! 1
   \<and> prices (example_spliced ! 2) = flat 100 \<and> prices (example_spliced ! 3) = flat 100"
proof -
  have run: "create_volatile_periods example_constants (- 100) 100 example_draws example_walk
      = Inr example_spliced"
    by code_simp
  have rs: "volatile_ranges example_constants example_draws (length example_walk)
      = Inr [(2, 4), (3, 5)]"
    by code_simp
  have len: "length example_walk = 6" by (simp add: example_walk_def)
  from create_volatile_periods_start_price [OF run] obtain ranges where
    a: "volatile_ranges example_constants example_draws (length example_walk) = Inr ranges" and
    dates: "map date example_spliced = map date example_walk" and
    out: "\<And>i. i < length example_walk \<Longrightarrow> \<not> covered ranges i
            \<Longrightarrow> example_spliced ! i = example_walk ! i" and
    start: "\<And>j. j < length ranges \<Longrightarrow> \<not> covered (drop (Suc j) ranges) (fst (ranges ! j))
            \<Longrightarrow> prices (example_spliced ! fst (ranges ! j)) = flat (np_round 6 \<bar>- 100\<bar>)"
    by blast
  from a rs have ranges: "ranges = [(2, 4), (3, 5)]" by simp
  have o0: "example_spliced ! 0 = example_walk ! 0"
    by (rule out) (simp_all add: len ranges covered_def)
  have o1: "example_spliced ! 1 = example_walk ! 1"
    by (rule out) (simp_all add: len ranges covered_def)
  have i0: "prices (example_spliced ! 2) = flat 100"
    using start [of 0] by (simp add: ranges covered_def np_round_numeral)
  have i1: "prices (example_spliced ! 3) = flat 100"
    using start [of 1] by (simp add: ranges covered_def np_round_numeral)
  from run rs dates o0 o1 i0 i1 show ?thesis by simp
qed

end
